theory Spec2Isabelle
  imports Complex_Main
begin

section \<open>Python values, exceptions and effects\<close>

text \<open>
  Every exception the modelled code can meet is a subclass of Python's \<open>Exception\<close>, so a
  handler \<open>except Exception\<close> catches each of them.
\<close>

datatype exn = TypeError | ValueError | IndexError | KeyError | AttributeError
  | ProviderError | StoreError

datatype level = ERROR | WARNING | INFO

text \<open>An argument of a call: left out by the caller, or passed.\<close>

datatype 'a arg = Omitted | Passed 'a

text \<open>An embedding as the code handles it: a list of floats, or \<open>None\<close>.\<close>

type_synonym vector = "real list option"

type_synonym metadata = "(string \<times> string) list"

text \<open>
  Record identifiers are untyped in the source: strings (\<open>"id0"\<close>, \<open>str(i)\<close>, a uuid) and
  integers (\<open>range(len(texts))\<close>).
\<close>

datatype record_id = StrId string | IntId int

record point =
  pid :: record_id
  ptext :: string
  pvector :: vector
  pmeta :: "metadata option"

datatype coll_config = ChromaMetadata metadata | QdrantVectorParams int string

record collection =
  cconfig :: coll_config
  points :: "point list"

text \<open>What a Chroma query answers: one inner list per query vector.\<close>

record chroma_result =
  res_ids :: "string list list"
  res_documents :: "string list list"
  res_distances :: "real list list"

text \<open>
  What a Qdrant search answers per hit: the score and the payload's \<open>"text"\<close> entry
  (\<open>None\<close> when the payload has no such key, where \<open>result.payload["text"]\<close> raises).
\<close>

record scored_point =
  sp_score :: real
  sp_text :: "string option"

record RetrievedDocument =
  doc_text :: string
  doc_score :: real

text \<open>The requests the two providers send to their database clients.\<close>

datatype call =
    ListCollections
  | CollectionExists string
  | DeleteCollection string
  | CreateCollection string coll_config
  | GetCollection string
  | ChromaAdd string "string list" "metadata option list" "record_id list" "vector list"
  | UploadRecords string "point list"
  | ChromaQuery string vector int
  | QdrantSearch string vector int

text \<open>
  The state the code acts on: the collections the database holds (by name, in creation
  order), the trace of requests sent to the database client, and the log lines written
  (level, message, and the exception the message formats, if any).
\<close>

record world =
  collections :: "(string \<times> collection) list"
  calls :: "call list"
  logs :: "(level \<times> string \<times> exn option) list"

text \<open>
  A computation acts on the world and returns normally (\<open>Inr\<close>) or raises (\<open>Inl\<close>); what it
  did to the world before raising stays done.
\<close>

type_synonym 'a prog = "world \<Rightarrow> (exn + 'a) \<times> world"

definition ret :: "'a \<Rightarrow> 'a prog" where
  "ret x w = (Inr x, w)"

definition raise :: "exn \<Rightarrow> 'a prog" where
  "raise e w = (Inl e, w)"

definition lift :: "exn + 'a \<Rightarrow> 'a prog" where
  "lift r w = (r, w)"

definition bnd :: "'a prog \<Rightarrow> ('a \<Rightarrow> 'b prog) \<Rightarrow> 'b prog" where
  "bnd m f w = (case m w of (Inl e, w') \<Rightarrow> (Inl e, w') | (Inr x, w') \<Rightarrow> f x w')"

definition try_except :: "'a prog \<Rightarrow> (exn \<Rightarrow> 'a prog) \<Rightarrow> 'a prog" where
  "try_except m h w = (case m w of (Inl e, w') \<Rightarrow> h e w' | (Inr x, w') \<Rightarrow> (Inr x, w'))"

definition logger :: "level \<Rightarrow> string \<Rightarrow> exn option \<Rightarrow> unit prog" where
  "logger l msg e w = (Inr (), w\<lparr>logs := logs w @ [(l, msg, e)]\<rparr>)"

subsection \<open>Built-ins\<close>

text \<open>
  \<open>range(0, n, step)\<close>: \<open>ValueError\<close> for a zero step, empty for a negative one, and
  otherwise the \<open>\<lceil>n / step\<rceil>\<close> multiples of the step below \<open>n\<close>.
\<close>

definition py_range0 :: "nat \<Rightarrow> int \<Rightarrow> exn + nat list" where
  "py_range0 n step =
     (if step = 0 then Inl ValueError
      else if step < 0 then Inr []
      else Inr (map (\<lambda>j. j * nat step) [0..<(n + nat step - 1) div nat step]))"

text \<open>The slice \<open>xs[i:j]\<close> for \<open>0 \<le> i\<close>.\<close>

definition py_slice :: "'a list \<Rightarrow> nat \<Rightarrow> nat \<Rightarrow> 'a list" where
  "py_slice xs i j = take (j - i) (drop i xs)"

text \<open>\<open>str\<close> of an integer, as an f-string formats it.\<close>

definition digit_char :: "nat \<Rightarrow> char" where
  "digit_char d = ''0123456789'' ! d"

function str_nat :: "nat \<Rightarrow> string" where
  "str_nat n = (if n < 10 then [digit_char n] else str_nat (n div 10) @ [digit_char (n mod 10)])"
  by pat_completeness auto
termination
  by (relation "measure (\<lambda>n. n)") auto

definition str_int :: "int \<Rightarrow> string" where
  "str_int i = (if i < 0 then CHR ''-'' # str_nat (nat (- i)) else str_nat (nat i))"

section \<open>The database clients\<close>

text \<open>
  The clients (\<open>chromadb.PersistentClient\<close>, \<open>QdrantClient\<close>) are third-party code. They
  are modelled as one store with these assumptions:
  \<^item> any request may raise: \<open>fault\<close> says, for the request's position in the trace and its
    content, which exception it raises, if any;
  \<^item> a request that raises leaves the collections as they were;
  \<^item> creating a collection whose name is taken, and deleting, reading, writing or
    searching one that does not exist, raise;
  \<^item> a write is checked before it is stored, and raises when the check fails: Chroma
    wants at least one identifier, as many documents, metadata and embeddings as
    identifiers, identifiers that are strings and differ from each other, no empty
    metadata dictionary, and embeddings that fit; Qdrant wants identifiers that are
    unsigned integers or UUIDs, and vectors that fit. Vectors fit when each is a non-empty
    list of numbers of one length, the length the collection is configured with (Qdrant) or
    the length of the vectors it already holds (Chroma);
  \<^item> an accepted write keeps identifiers unique within the collection: Chroma ignores a
    submitted point whose identifier the collection already holds, Qdrant replaces the
    point it holds by the submitted one;
  \<^item> what a search answers is a parameter.
  The remaining fields are the other collaborators of the code that are not part of it or
  not at hand: \<open>uuid.uuid4\<close>, the CSV parser \<open>pandas.read_csv\<close>, and of the provider
  classes \<open>OpenAIProvider\<close> and \<open>GroqProvider\<close> whether a constructor call raises and
  what \<open>embed_text\<close> returns or raises, and the two values of the enumeration \<open>LLMEnums\<close>.
  A table is its column names and its rows; a row carries its index label and maps a column
  name to the text that formatting the cell gives.
\<close>

datatype provider_kind = OpenAIProvider | GroqProvider

record provider =
  kind :: provider_kind
  api_key :: "string option"
  azure_api :: "string option"
  api_version :: "string option"
  azure_endpoint :: "string option"
  default_input_max_characters :: "int option"
  default_generation_max_output_tokens :: "int option"
  default_generation_temperature :: "real option"
  embedding_model_id :: "string option"

record data_frame =
  columns :: "string list"
  rows :: "(int \<times> (string \<Rightarrow> string)) list"

record env =
  fault :: "nat \<Rightarrow> call \<Rightarrow> exn option"
  chroma_answer :: "nat \<Rightarrow> call \<Rightarrow> chroma_result option"
  qdrant_answer :: "nat \<Rightarrow> call \<Rightarrow> scored_point list option"
  uuid4 :: "nat \<Rightarrow> string"
  init_raises :: "provider \<Rightarrow> exn option"
  embed_text :: "provider \<Rightarrow> string \<Rightarrow> exn + vector"
  read_csv :: "string \<Rightarrow> exn + data_frame"
  LLMEnums_OPENAI :: string
  LLMEnums_GROQ :: string

definition request :: "env \<Rightarrow> call \<Rightarrow> unit prog" where
  "request env c w =
     (case fault env (length (calls w)) c of
        Some e \<Rightarrow> (Inl e, w\<lparr>calls := calls w @ [c]\<rparr>)
      | None \<Rightarrow> (Inr (), w\<lparr>calls := calls w @ [c]\<rparr>))"

definition has_collection :: "world \<Rightarrow> string \<Rightarrow> bool" where
  "has_collection w name = (name \<in> set (map fst (collections w)))"

definition update_points :: "string \<Rightarrow> (point list \<Rightarrow> point list)
    \<Rightarrow> (string \<times> collection) list \<Rightarrow> (string \<times> collection) list" where
  "update_points name f cs =
     map (\<lambda>(k, c). if k = name then (k, c\<lparr>points := f (points c)\<rparr>) else (k, c)) cs"

text \<open>The length of a vector that is a non-empty list; the length a collection's vectors have.\<close>

definition vec_dim :: "vector \<Rightarrow> nat option" where
  "vec_dim v = (case v of None \<Rightarrow> None
                | Some xs \<Rightarrow> if xs = [] then None else Some (length xs))"

definition collection_dim :: "collection \<Rightarrow> nat option" where
  "collection_dim c =
     (case cconfig c of
        QdrantVectorParams sz _ \<Rightarrow> Some (nat sz)
      | ChromaMetadata _ \<Rightarrow> (case points c of [] \<Rightarrow> None | p # _ \<Rightarrow> vec_dim (pvector p)))"

definition vectors_fit :: "collection \<Rightarrow> vector list \<Rightarrow> bool" where
  "vectors_fit c vs =
     (case vs of
        [] \<Rightarrow> True
      | v # _ \<Rightarrow>
          (case vec_dim v of
             None \<Rightarrow> False
           | Some d \<Rightarrow>
               list_all (\<lambda>u. vec_dim u = Some d) vs
               \<and> (case collection_dim c of None \<Rightarrow> True | Some d' \<Rightarrow> d' = d)))"

text \<open>What Chroma checks in \<open>collection.add\<close>, and what it stores of an accepted call.\<close>

definition is_str_id :: "record_id \<Rightarrow> bool" where
  "is_str_id i = (case i of StrId _ \<Rightarrow> True | IntId _ \<Rightarrow> False)"

definition chroma_add_ok :: "collection \<Rightarrow> string list \<Rightarrow> metadata option list
    \<Rightarrow> record_id list \<Rightarrow> vector list \<Rightarrow> bool" where
  "chroma_add_ok c docs metas ids embs =
     (ids \<noteq> [] \<and> length docs = length ids \<and> length metas = length ids
      \<and> length embs = length ids \<and> list_all is_str_id ids \<and> distinct ids
      \<and> list_all (\<lambda>m. m \<noteq> Some []) metas \<and> vectors_fit c embs)"

definition chroma_merge :: "point list \<Rightarrow> point list \<Rightarrow> point list" where
  "chroma_merge old ps = old @ filter (\<lambda>p. pid p \<notin> set (map pid old)) ps"

text \<open>
  What Qdrant checks in \<open>upload_records\<close>, and what it stores of an accepted call. A UUID
  is read as \<open>uuid.UUID\<close> reads its hexadecimal forms: 32 hexadecimal digits, hyphens
  ignored.
\<close>

definition is_hex :: "char \<Rightarrow> bool" where
  "is_hex ch = (ch \<in> set ''0123456789abcdefABCDEF'')"

definition is_uuid :: "string \<Rightarrow> bool" where
  "is_uuid s = (let h = filter (\<lambda>ch. ch \<noteq> CHR ''-'') s in length h = 32 \<and> list_all is_hex h)"

definition qdrant_id_ok :: "record_id \<Rightarrow> bool" where
  "qdrant_id_ok i = (case i of IntId n \<Rightarrow> 0 \<le> n | StrId s \<Rightarrow> is_uuid s)"

definition upload_ok :: "collection \<Rightarrow> point list \<Rightarrow> bool" where
  "upload_ok c ps = (list_all (\<lambda>p. qdrant_id_ok (pid p)) ps \<and> vectors_fit c (map pvector ps))"

definition qdrant_upsert :: "point list \<Rightarrow> point list \<Rightarrow> point list" where
  "qdrant_upsert old ps = foldl (\<lambda>acc p. filter (\<lambda>q. pid q \<noteq> pid p) acc @ [p]) old ps"

definition client_list_collections :: "env \<Rightarrow> string list prog" where
  "client_list_collections env =
     bnd (request env ListCollections) (\<lambda>_ w. (Inr (map fst (collections w)), w))"

definition client_collection_exists :: "env \<Rightarrow> string \<Rightarrow> bool prog" where
  "client_collection_exists env name =
     bnd (request env (CollectionExists name)) (\<lambda>_ w. (Inr (has_collection w name), w))"

definition client_delete_collection :: "env \<Rightarrow> string \<Rightarrow> unit prog" where
  "client_delete_collection env name =
     bnd (request env (DeleteCollection name))
       (\<lambda>_ w. if has_collection w name
               then (Inr (), w\<lparr>collections := filter (\<lambda>kc. fst kc \<noteq> name) (collections w)\<rparr>)
               else (Inl ValueError, w))"

definition client_create_collection :: "env \<Rightarrow> string \<Rightarrow> coll_config \<Rightarrow> unit prog" where
  "client_create_collection env name cfg =
     bnd (request env (CreateCollection name cfg))
       (\<lambda>_ w. if has_collection w name then (Inl ValueError, w)
               else (Inr (), w\<lparr>collections :=
                       collections w @ [(name, \<lparr>cconfig = cfg, points = []\<rparr>)]\<rparr>))"

definition client_get_collection :: "env \<Rightarrow> string \<Rightarrow> collection prog" where
  "client_get_collection env name =
     bnd (request env (GetCollection name))
       (\<lambda>_ w. case map_of (collections w) name of
                 None \<Rightarrow> (Inl ValueError, w)
               | Some c \<Rightarrow> (Inr c, w))"

text \<open>
  \<open>collection.add(documents, metadatas, ids, embeddings)\<close> and
  \<open>client.upload_records(collection_name, records)\<close>.
\<close>

definition chroma_points :: "string list \<Rightarrow> metadata option list \<Rightarrow> record_id list
    \<Rightarrow> vector list \<Rightarrow> point list" where
  "chroma_points docs metas ids embs =
     map (\<lambda>x. \<lparr>pid = ids ! x, ptext = docs ! x, pvector = embs ! x, pmeta = metas ! x\<rparr>)
       [0..<length docs]"

definition client_add :: "env \<Rightarrow> string \<Rightarrow> string list \<Rightarrow> metadata option list
    \<Rightarrow> record_id list \<Rightarrow> vector list \<Rightarrow> unit prog" where
  "client_add env name docs metas ids embs =
     bnd (request env (ChromaAdd name docs metas ids embs))
       (\<lambda>_ w. case map_of (collections w) name of
                 None \<Rightarrow> (Inl ValueError, w)
               | Some c \<Rightarrow>
                   if chroma_add_ok c docs metas ids embs
                   then (Inr (), w\<lparr>collections :=
                           update_points name
                             (\<lambda>old. chroma_merge old (chroma_points docs metas ids embs))
                             (collections w)\<rparr>)
                   else (Inl ValueError, w))"

definition client_upload_records :: "env \<Rightarrow> string \<Rightarrow> point list \<Rightarrow> unit prog" where
  "client_upload_records env name ps =
     bnd (request env (UploadRecords name ps))
       (\<lambda>_ w. case map_of (collections w) name of
                 None \<Rightarrow> (Inl ValueError, w)
               | Some c \<Rightarrow>
                   if upload_ok c ps
                   then (Inr (), w\<lparr>collections :=
                           update_points name (\<lambda>old. qdrant_upsert old ps) (collections w)\<rparr>)
                   else (Inl ValueError, w))"

definition client_query :: "env \<Rightarrow> string \<Rightarrow> vector \<Rightarrow> int \<Rightarrow> chroma_result option prog" where
  "client_query env name v limit =
     (\<lambda>w. bnd (request env (ChromaQuery name v limit))
       (\<lambda>_ w'. if has_collection w' name
                then (Inr (chroma_answer env (length (calls w)) (ChromaQuery name v limit)), w')
                else (Inl ValueError, w')) w)"

definition client_search :: "env \<Rightarrow> string \<Rightarrow> vector \<Rightarrow> int \<Rightarrow> scored_point list option prog" where
  "client_search env name v limit =
     (\<lambda>w. bnd (request env (QdrantSearch name v limit))
       (\<lambda>_ w'. if has_collection w' name
                then (Inr (qdrant_answer env (length (calls w)) (QdrantSearch name v limit)), w')
                else (Inl ValueError, w')) w)"

section \<open>ChromaDBProvider\<close>

text \<open>What \<open>get_collection_info\<close> returns: the dictionary of name, count and metadata, or \<open>{}\<close>.\<close>

datatype collection_info = Info string nat coll_config | EmptyInfo

definition Chroma_is_collection_existed :: "env \<Rightarrow> string \<Rightarrow> bool prog" where
  "Chroma_is_collection_existed env collection_name =
     bnd (client_list_collections env)
       (\<lambda>cols. ret (list_ex (\<lambda>col. col = collection_name) cols))"

definition Chroma_get_collection_info :: "env \<Rightarrow> string \<Rightarrow> collection_info prog" where
  "Chroma_get_collection_info env collection_name =
     try_except
       (bnd (client_get_collection env collection_name)
          (\<lambda>c. ret (Info collection_name (length (points c)) (cconfig c))))
       (\<lambda>e. bnd (logger ERROR ''Error getting collection info'' (Some e)) (\<lambda>_. ret EmptyInfo))"

definition Chroma_delete_collection :: "env \<Rightarrow> string \<Rightarrow> unit prog" where
  "Chroma_delete_collection env collection_name =
     bnd (Chroma_is_collection_existed env collection_name)
       (\<lambda>ex. if ex then client_delete_collection env collection_name else ret ())"

definition Chroma_create_collection :: "env \<Rightarrow> string \<Rightarrow> int arg \<Rightarrow> bool \<Rightarrow> bool prog" where
  "Chroma_create_collection env collection_name embedding_size do_reset =
     bnd (if do_reset then Chroma_delete_collection env collection_name else ret ())
       (\<lambda>_. bnd (Chroma_is_collection_existed env collection_name)
         (\<lambda>ex. if \<not> ex
                then bnd (client_create_collection env collection_name
                            (ChromaMetadata [(''hnsw:space'', ''cosine'')]))
                       (\<lambda>_. ret True)
                else ret False))"

definition Chroma_insert_one :: "env \<Rightarrow> string \<Rightarrow> string \<Rightarrow> vector \<Rightarrow> metadata option
    \<Rightarrow> string option \<Rightarrow> bool prog" where
  "Chroma_insert_one env collection_name txt vec metadata record_id =
     bnd (Chroma_is_collection_existed env collection_name)
       (\<lambda>ex. if \<not> ex
          then bnd (logger ERROR ''Cannot insert record into non-existent collection'' None)
                 (\<lambda>_. ret False)
          else try_except
                 (bnd (client_get_collection env collection_name)
                   (\<lambda>_ w. let rid = (case record_id of None \<Rightarrow> uuid4 env (length (calls w))
                                                     | Some r \<Rightarrow> r);
                               md = (case metadata of None \<Rightarrow> [] | Some m \<Rightarrow> m)
                           in bnd (client_add env collection_name [txt] [Some md] [StrId rid] [vec])
                                (\<lambda>_. ret True) w))
                 (\<lambda>e. bnd (logger ERROR ''Error while inserting record'' (Some e))
                        (\<lambda>_. ret False)))"

fun Chroma_add_batches :: "env \<Rightarrow> string \<Rightarrow> string list \<Rightarrow> vector list
    \<Rightarrow> metadata option list \<Rightarrow> record_id list \<Rightarrow> nat \<Rightarrow> nat list \<Rightarrow> unit prog" where
  "Chroma_add_batches env name texts vectors metadata record_ids batch_size [] = ret ()"
| "Chroma_add_batches env name texts vectors metadata record_ids batch_size (i # starts) =
     bnd (client_add env name
            (py_slice texts i (i + batch_size))
            (py_slice metadata i (i + batch_size))
            (py_slice record_ids i (i + batch_size))
            (py_slice vectors i (i + batch_size)))
       (\<lambda>_. Chroma_add_batches env name texts vectors metadata record_ids batch_size starts)"

definition Chroma_insert_many :: "env \<Rightarrow> string \<Rightarrow> string list \<Rightarrow> vector list
    \<Rightarrow> metadata option list option \<Rightarrow> record_id list option \<Rightarrow> int \<Rightarrow> bool prog" where
  "Chroma_insert_many env collection_name texts vectors metadata record_ids batch_size =
     (let metadata' = (case metadata of None \<Rightarrow> replicate (length texts) (Some [])
                                      | Some m \<Rightarrow> m);
          record_ids' = (case record_ids of
                           None \<Rightarrow> map (\<lambda>i. StrId (str_nat i)) [0..<length texts]
                         | Some r \<Rightarrow> r)
      in try_except
           (bnd (client_get_collection env collection_name)
             (\<lambda>_. bnd (lift (py_range0 (length texts) batch_size))
               (\<lambda>starts. bnd (Chroma_add_batches env collection_name texts vectors metadata'
                                 record_ids' (nat batch_size) starts)
                 (\<lambda>_. ret True))))
           (\<lambda>e. bnd (logger ERROR ''Error while inserting batch'' (Some e)) (\<lambda>_. ret False)))"

text \<open>
  \<open>search_by_vector\<close>: \<open>results["documents"][0]\<close> and \<open>results["distances"][0]\<close> raise
  \<open>IndexError\<close> on an empty outer list; \<open>zip\<close> stops at the shorter list.
\<close>

definition first_of :: "'a list \<Rightarrow> exn + 'a" where
  "first_of xs = (case xs of [] \<Rightarrow> Inl IndexError | x # _ \<Rightarrow> Inr x)"

definition Chroma_search_by_vector :: "env \<Rightarrow> string \<Rightarrow> vector \<Rightarrow> int
    \<Rightarrow> RetrievedDocument list option prog" where
  "Chroma_search_by_vector env collection_name vec limit =
     try_except
       (bnd (client_get_collection env collection_name)
         (\<lambda>_. bnd (client_query env collection_name vec limit)
           (\<lambda>results. case results of
               None \<Rightarrow> ret None
             | Some r \<Rightarrow>
                 if res_ids r = [] then ret None
                 else if length (hd (res_ids r)) = 0 then ret None
                 else bnd (lift (first_of (res_documents r)))
                        (\<lambda>docs. bnd (lift (first_of (res_distances r)))
                          (\<lambda>dists. ret (Some (map (\<lambda>(doc, distance).
                                      \<lparr>doc_text = doc, doc_score = distance\<rparr>) (zip docs dists))))))))
       (\<lambda>e. bnd (logger ERROR ''Error during search'' (Some e)) (\<lambda>_. ret None))"

section \<open>QdrantDBProvider\<close>

definition Qdrant_is_collection_existed :: "env \<Rightarrow> string \<Rightarrow> bool prog" where
  "Qdrant_is_collection_existed env collection_name =
     client_collection_exists env collection_name"

definition Qdrant_get_collection_info :: "env \<Rightarrow> string \<Rightarrow> collection_info prog" where
  "Qdrant_get_collection_info env collection_name =
     bnd (client_get_collection env collection_name)
       (\<lambda>c. ret (Info collection_name (length (points c)) (cconfig c)))"

definition Qdrant_delete_collection :: "env \<Rightarrow> string \<Rightarrow> unit prog" where
  "Qdrant_delete_collection env collection_name =
     bnd (Qdrant_is_collection_existed env collection_name)
       (\<lambda>ex. if ex then client_delete_collection env collection_name else ret ())"

text \<open>\<open>embedding_size\<close> has no default: a call that leaves it out raises \<open>TypeError\<close>.\<close>

definition Qdrant_create_collection :: "env \<Rightarrow> string \<Rightarrow> int arg \<Rightarrow> bool \<Rightarrow> bool prog" where
  "Qdrant_create_collection env collection_name embedding_size do_reset =
     (case embedding_size of
        Omitted \<Rightarrow> raise TypeError
      | Passed esize \<Rightarrow>
          bnd (if do_reset then Qdrant_delete_collection env collection_name else ret ())
            (\<lambda>_. bnd (Qdrant_is_collection_existed env collection_name)
              (\<lambda>ex. if \<not> ex
                     then bnd (client_create_collection env collection_name
                                 (QdrantVectorParams esize ''Cosine''))
                            (\<lambda>_. ret True)
                     else ret False)))"

text \<open>
  \<open>insert_one\<close> builds its record as \<open>models.Record(id=[record_id], ...)\<close>. The record
  class takes an integer or a string as identifier and validates what it is given: for the
  one-element list the constructor raises (pydantic's \<open>ValidationError\<close>, a
  \<open>ValueError\<close>), inside the \<open>try\<close> and before \<open>upload_records\<close> is called.
\<close>

definition Record_with_list_id :: "string option \<Rightarrow> vector \<Rightarrow> string \<Rightarrow> metadata option
    \<Rightarrow> exn + point" where
  "Record_with_list_id record_id vec txt metadata = Inl ValueError"

definition Qdrant_insert_one :: "env \<Rightarrow> string \<Rightarrow> string \<Rightarrow> vector \<Rightarrow> metadata option
    \<Rightarrow> string option \<Rightarrow> bool prog" where
  "Qdrant_insert_one env collection_name txt vec metadata record_id =
     bnd (Qdrant_is_collection_existed env collection_name)
       (\<lambda>ex. if \<not> ex
          then bnd (logger ERROR ''Cannot insert record to non-existent collection'' None)
                 (\<lambda>_. ret False)
          else try_except
                 (bnd (lift (Record_with_list_id record_id vec txt metadata))
                    (\<lambda>record. bnd (client_upload_records env collection_name [record])
                      (\<lambda>_. ret True)))
                 (\<lambda>e. bnd (logger ERROR ''Error while inserting record'' (Some e))
                        (\<lambda>_. ret False)))"

text \<open>
  The list comprehension building a batch indexes the four slices by the positions of the
  text slice: a shorter slice raises \<open>IndexError\<close>, outside any handler.
\<close>

definition Qdrant_batch_records :: "string list \<Rightarrow> vector list \<Rightarrow> metadata option list
    \<Rightarrow> record_id list \<Rightarrow> exn + point list" where
  "Qdrant_batch_records batch_texts batch_vectors batch_metadata batch_record_ids =
     (if length batch_record_ids < length batch_texts
         \<or> length batch_vectors < length batch_texts
         \<or> length batch_metadata < length batch_texts
      then Inl IndexError
      else Inr (map (\<lambda>x. \<lparr>pid = batch_record_ids ! x, ptext = batch_texts ! x,
                           pvector = batch_vectors ! x, pmeta = batch_metadata ! x\<rparr>)
                  [0..<length batch_texts]))"

fun Qdrant_upload_batches :: "env \<Rightarrow> string \<Rightarrow> string list \<Rightarrow> vector list
    \<Rightarrow> metadata option list \<Rightarrow> record_id list \<Rightarrow> nat \<Rightarrow> nat list \<Rightarrow> bool prog" where
  "Qdrant_upload_batches env name texts vectors metadata record_ids batch_size [] = ret True"
| "Qdrant_upload_batches env name texts vectors metadata record_ids batch_size (i # starts) =
     bnd (lift (Qdrant_batch_records
                  (py_slice texts i (i + batch_size))
                  (py_slice vectors i (i + batch_size))
                  (py_slice metadata i (i + batch_size))
                  (py_slice record_ids i (i + batch_size))))
       (\<lambda>batch_records.
          bnd (try_except
                 (bnd (client_upload_records env name batch_records) (\<lambda>_. ret True))
                 (\<lambda>e. bnd (logger ERROR ''Error while inserting batch'' (Some e))
                        (\<lambda>_. ret False)))
            (\<lambda>uploaded. if uploaded
               then Qdrant_upload_batches env name texts vectors metadata record_ids
                      batch_size starts
               else ret False))"

definition Qdrant_insert_many :: "env \<Rightarrow> string \<Rightarrow> string list \<Rightarrow> vector list
    \<Rightarrow> metadata option list option \<Rightarrow> record_id list option \<Rightarrow> int \<Rightarrow> bool prog" where
  "Qdrant_insert_many env collection_name texts vectors metadata record_ids batch_size =
     (let metadata' = (case metadata of None \<Rightarrow> replicate (length texts) None
                                      | Some m \<Rightarrow> m);
          record_ids' = (case record_ids of
                           None \<Rightarrow> map (\<lambda>i. IntId (int i)) [0..<length texts]
                         | Some r \<Rightarrow> r)
      in bnd (lift (py_range0 (length texts) batch_size))
           (\<lambda>starts. Qdrant_upload_batches env collection_name texts vectors metadata'
                        record_ids' (nat batch_size) starts))"

fun Qdrant_retrieved :: "scored_point list \<Rightarrow> exn + RetrievedDocument list" where
  "Qdrant_retrieved [] = Inr []"
| "Qdrant_retrieved (r # rs) =
     (case sp_text r of
        None \<Rightarrow> Inl KeyError
      | Some t \<Rightarrow>
          (case Qdrant_retrieved rs of
             Inl e \<Rightarrow> Inl e
           | Inr ds \<Rightarrow> Inr (\<lparr>doc_text = t, doc_score = sp_score r\<rparr> # ds)))"

definition Qdrant_search_by_vector :: "env \<Rightarrow> string \<Rightarrow> vector \<Rightarrow> int
    \<Rightarrow> RetrievedDocument list option prog" where
  "Qdrant_search_by_vector env collection_name vec limit =
     bnd (client_search env collection_name vec limit)
       (\<lambda>results. case results of
           None \<Rightarrow> ret None
         | Some rs \<Rightarrow>
             if length rs = 0 then ret None
             else bnd (lift (Qdrant_retrieved rs)) (\<lambda>ds. ret (Some ds)))"

section \<open>VectorDBInterface\<close>

text \<open>The two variants, and the dispatch of a call through the interface.\<close>

datatype vectordb = Chroma | Qdrant

definition create_collection :: "vectordb \<Rightarrow> env \<Rightarrow> string \<Rightarrow> int arg \<Rightarrow> bool \<Rightarrow> bool prog" where
  "create_collection v = (case v of Chroma \<Rightarrow> Chroma_create_collection
                                  | Qdrant \<Rightarrow> Qdrant_create_collection)"

definition insert_one :: "vectordb \<Rightarrow> env \<Rightarrow> string \<Rightarrow> string \<Rightarrow> vector \<Rightarrow> metadata option
    \<Rightarrow> string option \<Rightarrow> bool prog" where
  "insert_one v = (case v of Chroma \<Rightarrow> Chroma_insert_one | Qdrant \<Rightarrow> Qdrant_insert_one)"

definition insert_many :: "vectordb \<Rightarrow> env \<Rightarrow> string \<Rightarrow> string list \<Rightarrow> vector list
    \<Rightarrow> metadata option list option \<Rightarrow> record_id list option \<Rightarrow> int \<Rightarrow> bool prog" where
  "insert_many v = (case v of Chroma \<Rightarrow> Chroma_insert_many | Qdrant \<Rightarrow> Qdrant_insert_many)"

definition search_by_vector :: "vectordb \<Rightarrow> env \<Rightarrow> string \<Rightarrow> vector \<Rightarrow> int
    \<Rightarrow> RetrievedDocument list option prog" where
  "search_by_vector v = (case v of Chroma \<Rightarrow> Chroma_search_by_vector
                                 | Qdrant \<Rightarrow> Qdrant_search_by_vector)"

definition get_collection_info :: "vectordb \<Rightarrow> env \<Rightarrow> string \<Rightarrow> collection_info prog" where
  "get_collection_info v = (case v of Chroma \<Rightarrow> Chroma_get_collection_info
                                    | Qdrant \<Rightarrow> Qdrant_get_collection_info)"

section \<open>LLMProviderFactory\<close>

text \<open>The part of \<open>Settings\<close> the modelled code reads; a field without a value is \<open>None\<close>.\<close>

record settings =
  EMBEDDING_BACKEND :: string
  EMBEDDING_MODEL_ID :: "string option"
  OPENAI_API_KEY :: "string option"
  GROQ_API_KEY :: "string option"
  AZURE_OPENAI_API_KEY :: "string option"
  AZURE_OPENAI_ENDPOINT :: "string option"
  API_VERSION :: "string option"
  INPUT_DAFAULT_MAX_CHARACTERS :: "int option"
  GENERATION_DAFAULT_MAX_TOKENS :: "int option"
  GENERATION_DAFAULT_TEMPERATURE :: "real option"
  COLLECTION_NAME :: string

text \<open>\<open>not key\<close> for an optional string: true for \<open>None\<close> and for the empty string.\<close>

definition py_not :: "'a list option \<Rightarrow> bool" where
  "py_not v = (case v of None \<Rightarrow> True | Some xs \<Rightarrow> xs = [])"

text \<open>
  Modelled from the spec: the constructors of \<open>OpenAIProvider\<close> and \<open>GroqProvider\<close>, which
  are not at hand. Construction is local and keeps the arguments; whether it raises for
  the given arguments is the parameter \<open>init_raises\<close>.
\<close>

definition construct :: "env \<Rightarrow> provider \<Rightarrow> provider option prog" where
  "construct env p = (case init_raises env p of Some e \<Rightarrow> raise e | None \<Rightarrow> ret (Some p))"

definition LLMProviderFactory_create :: "env \<Rightarrow> settings \<Rightarrow> bool \<Rightarrow> string
    \<Rightarrow> provider option prog" where
  "LLMProviderFactory_create env config azure provider =
     (if provider = LLMEnums_OPENAI env then
        (if azure then
           construct env
             \<lparr>kind = OpenAIProvider, api_key = None,
              azure_api = AZURE_OPENAI_API_KEY config,
              api_version = API_VERSION config,
              azure_endpoint = AZURE_OPENAI_ENDPOINT config,
              default_input_max_characters = INPUT_DAFAULT_MAX_CHARACTERS config,
              default_generation_max_output_tokens = GENERATION_DAFAULT_MAX_TOKENS config,
              default_generation_temperature = GENERATION_DAFAULT_TEMPERATURE config,
              embedding_model_id = None\<rparr>
         else if py_not (OPENAI_API_KEY config) then
           bnd (logger ERROR ''Missing OpenAI API key in configuration.'' None) (\<lambda>_. ret None)
         else
           construct env
             \<lparr>kind = OpenAIProvider, api_key = OPENAI_API_KEY config,
              azure_api = None, api_version = None, azure_endpoint = None,
              default_input_max_characters = INPUT_DAFAULT_MAX_CHARACTERS config,
              default_generation_max_output_tokens = GENERATION_DAFAULT_MAX_TOKENS config,
              default_generation_temperature = GENERATION_DAFAULT_TEMPERATURE config,
              embedding_model_id = None\<rparr>)
      else if provider = LLMEnums_GROQ env then
        (if py_not (GROQ_API_KEY config) then
           bnd (logger ERROR ''Missing Groq API key in configuration.'' None) (\<lambda>_. ret None)
         else
           construct env
             \<lparr>kind = GroqProvider, api_key = GROQ_API_KEY config,
              azure_api = None, api_version = None, azure_endpoint = None,
              default_input_max_characters = INPUT_DAFAULT_MAX_CHARACTERS config,
              default_generation_max_output_tokens = GENERATION_DAFAULT_MAX_TOKENS config,
              default_generation_temperature = GENERATION_DAFAULT_TEMPERATURE config,
              embedding_model_id = None\<rparr>)
      else bnd (logger WARNING ''Unsupported provider'' None) (\<lambda>_. ret None))"

section \<open>DataProcessController\<close>

text \<open>
  \<open>os.path.basename\<close> and \<open>os.path.splitext\<close> as \<open>posixpath\<close> defines them: the base name
  is what follows the last slash; the extension starts at the last dot of the base name,
  unless only dots precede that dot.
\<close>

definition rfind :: "string \<Rightarrow> char \<Rightarrow> int" where
  "rfind p c =
     (if c \<in> set p then int (length p) - 1 - int (length (takeWhile (\<lambda>x. x \<noteq> c) (rev p)))
      else - 1)"

definition basename :: "string \<Rightarrow> string" where
  "basename p = drop (nat (rfind p (CHR ''/'') + 1)) p"

definition splitext :: "string \<Rightarrow> string \<times> string" where
  "splitext p =
     (let sepIndex = rfind p (CHR ''/'');
          dotIndex = rfind p (CHR ''.'')
      in if sepIndex < dotIndex
            \<and> list_ex (\<lambda>x. x \<noteq> CHR ''.'') (py_slice p (nat (sepIndex + 1)) (nat dotIndex))
         then (take (nat dotIndex) p, drop (nat dotIndex) p)
         else (p, []))"

text \<open>
  The constructor: the embedding client comes from the factory, called with
  \<open>azure=False\<close>; \<open>set_embedding_model\<close> on the \<open>None\<close> the factory may return raises
  \<open>AttributeError\<close>. The controller is represented by its client.
\<close>

definition DataProcessController_init :: "env \<Rightarrow> settings \<Rightarrow> provider prog" where
  "DataProcessController_init env app_settings =
     bnd (LLMProviderFactory_create env app_settings False (EMBEDDING_BACKEND app_settings))
       (\<lambda>client. case client of
            None \<Rightarrow> raise AttributeError
          | Some c \<Rightarrow> ret (c\<lparr>embedding_model_id := EMBEDDING_MODEL_ID app_settings\<rparr>))"

definition get_file_loader :: "env \<Rightarrow> string \<Rightarrow> (data_frame \<times> string) option prog" where
  "get_file_loader env dataset =
     (let file_names_with_extensions = basename dataset;
          (file_name, file_extension) = splitext file_names_with_extensions
      in if file_extension = ''.csv''
         then bnd (lift (read_csv env dataset)) (\<lambda>df. ret (Some (df, file_name)))
         else bnd (logger ERROR ''The selected file type is not supported'' None)
                (\<lambda>_. ret None))"

text \<open>The inner loop over the columns: \<open>output_str += f"{col}: {row[col]},\n"\<close>.\<close>

definition row_text :: "string list \<Rightarrow> (string \<Rightarrow> string) \<Rightarrow> string" where
  "row_text cols row =
     foldl (\<lambda>output_str col. output_str @ col @ '': '' @ row col @ [CHR '','', CHR 0x0A])
       [] cols"

text \<open>
  The outer loop over \<open>df.iterrows()\<close>, with the four lists it appends to. An exception of
  \<open>embed_text\<close> leaves the loop and the function.
\<close>

fun prepare_rows :: "env \<Rightarrow> provider \<Rightarrow> string list \<Rightarrow> string
    \<Rightarrow> (int \<times> (string \<Rightarrow> string)) list
    \<Rightarrow> string list \<times> metadata option list \<times> record_id list \<times> vector list
    \<Rightarrow> exn + string list \<times> metadata option list \<times> record_id list \<times> vector list" where
  "prepare_rows env client cols file_name [] acc = Inr acc"
| "prepare_rows env client cols file_name ((index, row) # rest) (docs, metadatas, ids, embeddings) =
     (let output_str = row_text cols row
      in case embed_text env client output_str of
           Inl e \<Rightarrow> Inl e
         | Inr v \<Rightarrow>
             prepare_rows env client cols file_name rest
               (docs @ [output_str],
                metadatas @ [Some [(''source'', file_name)]],
                ids @ [StrId (''id'' @ str_int index)],
                embeddings @ [v]))"

definition prepare_data_for_injection :: "env \<Rightarrow> provider \<Rightarrow> data_frame \<Rightarrow> string
    \<Rightarrow> exn + string list \<times> metadata option list \<times> record_id list \<times> vector list" where
  "prepare_data_for_injection env client df file_name =
     prepare_rows env client (columns df) file_name (rows df) ([], [], [], [])"

section \<open>RAGController\<close>

record RAGController =
  em :: bool
  app_settings :: settings
  text_embedding_client :: provider
  vectordb_client :: vectordb
  data_csv :: string

text \<open>
  \<open>index_into_vector_db\<close>: \<open>None\<close> is the \<open>None\<close> of the handler. Unpacking the \<open>None\<close> that
  \<open>get_file_loader\<close> may return raises \<open>TypeError\<close>. \<open>create_collection\<close> is called without
  \<open>embedding_size\<close>, \<open>insert_many\<close> with the default batch size.
\<close>

definition index_into_vector_db :: "env \<Rightarrow> RAGController \<Rightarrow> collection_info option prog" where
  "index_into_vector_db env self =
     (if \<not> em self then
        bnd (get_collection_info (vectordb_client self) env
               (COLLECTION_NAME (app_settings self)))
          (\<lambda>vectordb_info. ret (Some vectordb_info))
      else
        try_except
          (bnd (DataProcessController_init env (app_settings self))
            (\<lambda>process_controller. bnd (get_file_loader env (data_csv self))
              (\<lambda>loaded. case loaded of
                  None \<Rightarrow> raise TypeError
                | Some (df, file_name) \<Rightarrow>
                    bnd (lift (prepare_data_for_injection env process_controller df file_name))
                      (\<lambda>(docs, metadatas, ids, embeddings).
                        bnd (create_collection (vectordb_client self) env
                               (COLLECTION_NAME (app_settings self)) Omitted True)
                          (\<lambda>_. bnd (insert_many (vectordb_client self) env
                                       (COLLECTION_NAME (app_settings self))
                                       docs embeddings (Some metadatas) (Some ids) 50)
                            (\<lambda>_. bnd (logger INFO ''Data is stored in the vector database.'' None)
                              (\<lambda>_. bnd (get_collection_info (vectordb_client self) env
                                           (COLLECTION_NAME (app_settings self)))
                                (\<lambda>vectordb_info. bnd (logger INFO ''Vector DB Info'' None)
                                  (\<lambda>_. ret (Some vectordb_info))))))))))
          (\<lambda>e. bnd (logger ERROR ''Error during vector DB indexing'' (Some e))
                 (\<lambda>_. ret None)))"

definition search_vector_db_collection :: "env \<Rightarrow> RAGController \<Rightarrow> string \<Rightarrow> int
    \<Rightarrow> RetrievedDocument list prog" where
  "search_vector_db_collection env self txt limit =
     try_except
       (bnd (lift (embed_text env (text_embedding_client self) txt))
         (\<lambda>vec. if py_not vec
            then bnd (logger WARNING
                        ''Embedding returned an empty vector; returning empty result set.'' None)
                   (\<lambda>_. ret [])
            else bnd (search_by_vector (vectordb_client self) env
                        (COLLECTION_NAME (app_settings self)) vec limit)
                   (\<lambda>results. if py_not results then ret [] else ret (the results))))
       (\<lambda>e. bnd (logger ERROR ''Error during vector DB search'' (Some e)) (\<lambda>_. ret []))"

section \<open>Notions the statements use\<close>

text \<open>The request by which a variant asks whether a collection exists.\<close>

definition exists_call :: "vectordb \<Rightarrow> string \<Rightarrow> call" where
  "exists_call v n = (case v of Chroma \<Rightarrow> ListCollections | Qdrant \<Rightarrow> CollectionExists n)"

text \<open>The configuration a variant gives a collection it creates.\<close>

definition fresh_config :: "vectordb \<Rightarrow> int \<Rightarrow> coll_config" where
  "fresh_config v sz =
     (case v of Chroma \<Rightarrow> ChromaMetadata [(''hnsw:space'', ''cosine'')]
              | Qdrant \<Rightarrow> QdrantVectorParams sz ''Cosine'')"

text \<open>
  Batches: \<open>batch_count n b\<close> is how many batches of size \<open>b\<close> cover \<open>n\<close> records; batch
  \<open>j\<close> (from 0) is made of the slices from position \<open>j * b\<close> up to \<open>j * b + b\<close> of the
  four lists, \<open>batch_points\<close> are its records and \<open>batch_call\<close> is the write request that
  submits it. \<open>first_calls\<close> are the requests a variant's \<open>insert_many\<close> sends before the
  first batch.
\<close>

definition batch_count :: "nat \<Rightarrow> nat \<Rightarrow> nat" where
  "batch_count n b = (n + b - 1) div b"

definition batch_points :: "string list \<Rightarrow> vector list \<Rightarrow> metadata option list
    \<Rightarrow> record_id list \<Rightarrow> nat \<Rightarrow> nat \<Rightarrow> point list" where
  "batch_points texts vectors metadata ids b j =
     chroma_points (py_slice texts (j * b) (j * b + b))
       (py_slice metadata (j * b) (j * b + b))
       (py_slice ids (j * b) (j * b + b))
       (py_slice vectors (j * b) (j * b + b))"

definition batch_call :: "vectordb \<Rightarrow> string \<Rightarrow> string list \<Rightarrow> vector list
    \<Rightarrow> metadata option list \<Rightarrow> record_id list \<Rightarrow> nat \<Rightarrow> nat \<Rightarrow> call" where
  "batch_call v name texts vectors metadata ids b j =
     (case v of
        Chroma \<Rightarrow> ChromaAdd name (py_slice texts (j * b) (j * b + b))
                    (py_slice metadata (j * b) (j * b + b))
                    (py_slice ids (j * b) (j * b + b))
                    (py_slice vectors (j * b) (j * b + b))
      | Qdrant \<Rightarrow> UploadRecords name (batch_points texts vectors metadata ids b j))"

definition first_calls :: "vectordb \<Rightarrow> string \<Rightarrow> call list" where
  "first_calls v name = (case v of Chroma \<Rightarrow> [GetCollection name] | Qdrant \<Rightarrow> [])"

text \<open>
  When the database refuses a request, and with which exception: when \<open>fault\<close> says so, or
  when the request is a read or a write that the client's own check turns down
  (\<open>passes_check\<close>: the collection exists and, for a write, the content passes the check).
\<close>

definition passes_check :: "world \<Rightarrow> call \<Rightarrow> bool" where
  "passes_check w c =
     (case c of
        GetCollection n \<Rightarrow> has_collection w n
      | ChromaAdd n docs metas ids embs \<Rightarrow>
          (case map_of (collections w) n of
             None \<Rightarrow> False
           | Some col \<Rightarrow> chroma_add_ok col docs metas ids embs)
      | UploadRecords n ps \<Rightarrow>
          (case map_of (collections w) n of None \<Rightarrow> False | Some col \<Rightarrow> upload_ok col ps)
      | _ \<Rightarrow> True)"

definition refusal :: "env \<Rightarrow> world \<Rightarrow> call \<Rightarrow> exn option" where
  "refusal env w c =
     (case fault env (length (calls w)) c of
        Some e \<Rightarrow> Some e
      | None \<Rightarrow> if passes_check w c then None else Some ValueError)"

text \<open>
  What a variant's store makes of an accepted batch, and the world after \<open>insert_many\<close> has
  sent its first requests and the database has accepted the batches \<open>0, \<dots>, j - 1\<close>.
\<close>

definition write_points :: "vectordb \<Rightarrow> string \<Rightarrow> point list \<Rightarrow> (string \<times> collection) list
    \<Rightarrow> (string \<times> collection) list" where
  "write_points v name ps cs =
     (case v of
        Chroma \<Rightarrow> update_points name (\<lambda>old. chroma_merge old ps) cs
      | Qdrant \<Rightarrow> update_points name (\<lambda>old. qdrant_upsert old ps) cs)"

definition after_batches :: "vectordb \<Rightarrow> string \<Rightarrow> string list \<Rightarrow> vector list
    \<Rightarrow> metadata option list \<Rightarrow> record_id list \<Rightarrow> nat \<Rightarrow> world \<Rightarrow> nat \<Rightarrow> world" where
  "after_batches v name texts vectors metadata ids b w j =
     w\<lparr>collections :=
         foldl (\<lambda>cs i. write_points v name (batch_points texts vectors metadata ids b i) cs)
           (collections w) [0..<j],
       calls := calls w @ first_calls v name
                  @ map (batch_call v name texts vectors metadata ids b) [0..<j]\<rparr>"

subsection \<open>An example: the three cars of the specification\<close>

definition example_table :: data_frame where
  "example_table =
     \<lparr>columns = [''make'', ''year''],
      rows = [(0, \<lambda>col. if col = ''make'' then ''Toyota'' else ''2020''),
              (1, \<lambda>col. if col = ''make'' then ''Honda'' else ''2019''),
              (2, \<lambda>col. if col = ''make'' then ''Ford'' else ''2021'')]\<rparr>"

text \<open>A database that never fails, an embedder that never fails, and the table above.\<close>

definition example_env :: env where
  "example_env =
     \<lparr>fault = (\<lambda>_ _. None),
      chroma_answer = (\<lambda>_ _. None),
      qdrant_answer = (\<lambda>_ _. None),
      uuid4 = (\<lambda>_. ''7f1c''),
      init_raises = (\<lambda>_. None),
      embed_text = (\<lambda>_ t. Inr (Some [real (length t)])),
      read_csv = (\<lambda>_. Inr example_table),
      LLMEnums_OPENAI = ''OPENAI'',
      LLMEnums_GROQ = ''GROQ''\<rparr>"

definition empty_world :: world where
  "empty_world = \<lparr>collections = [], calls = [], logs = []\<rparr>"

text \<open>A world whose database holds the collection \<open>cars\<close> with one document.\<close>

definition stocked_world :: world where
  "stocked_world =
     \<lparr>collections =
        [(''cars'', \<lparr>cconfig = ChromaMetadata [(''hnsw:space'', ''cosine'')],
                     points = [\<lparr>pid = StrId ''id0'', ptext = ''make: Fiat,'',
                                pvector = Some [1], pmeta = None\<rparr>]\<rparr>)],
      calls = [], logs = []\<rparr>"

text \<open>The lists \<open>insert_many\<close> works with when an optional argument is left out.\<close>

definition metadata_or_default :: "vectordb \<Rightarrow> nat \<Rightarrow> metadata option list option
    \<Rightarrow> metadata option list" where
  "metadata_or_default v n md =
     (case md of Some m \<Rightarrow> m
      | None \<Rightarrow> replicate n (case v of Chroma \<Rightarrow> Some [] | Qdrant \<Rightarrow> None))"

definition ids_or_default :: "vectordb \<Rightarrow> nat \<Rightarrow> record_id list option \<Rightarrow> record_id list" where
  "ids_or_default v n rids =
     (case rids of Some r \<Rightarrow> r
      | None \<Rightarrow> (case v of Chroma \<Rightarrow> map (\<lambda>i. StrId (str_nat i)) [0..<n]
                        | Qdrant \<Rightarrow> map (\<lambda>i. IntId (int i)) [0..<n]))"

text \<open>A database whose third request fails, and five records to insert.\<close>

definition flaky_env :: env where
  "flaky_env = example_env\<lparr>fault := (\<lambda>i c. if i = 2 then Some StoreError else None)\<rparr>"

definition five_texts :: "string list" where
  "five_texts = [''a'', ''b'', ''c'', ''d'', ''e'']"

definition five_vectors :: "vector list" where
  "five_vectors = [Some [1], Some [2], Some [3], Some [4], Some [5]]"

text \<open>A database that refuses every request.\<close>

definition down_env :: env where
  "down_env = example_env\<lparr>fault := (\<lambda>i c. Some StoreError)\<rparr>"

text \<open>The error a variant's \<open>insert_one\<close> logs for a collection that does not exist.\<close>

definition insert_one_message :: "vectordb \<Rightarrow> string" where
  "insert_one_message v =
     (case v of Chroma \<Rightarrow> ''Cannot insert record into non-existent collection''
              | Qdrant \<Rightarrow> ''Cannot insert record to non-existent collection'')"

text \<open>Settings, an embedding client and a controller for the example.\<close>

definition example_settings :: settings where
  "example_settings =
     \<lparr>EMBEDDING_BACKEND = ''OPENAI'', EMBEDDING_MODEL_ID = Some ''text-embedding-3-small'',
      OPENAI_API_KEY = Some ''sk-test'', GROQ_API_KEY = None, AZURE_OPENAI_API_KEY = None,
      AZURE_OPENAI_ENDPOINT = None, API_VERSION = None,
      INPUT_DAFAULT_MAX_CHARACTERS = Some 1024, GENERATION_DAFAULT_MAX_TOKENS = Some 200,
      GENERATION_DAFAULT_TEMPERATURE = None, COLLECTION_NAME = ''cars''\<rparr>"

definition example_provider :: provider where
  "example_provider =
     \<lparr>kind = OpenAIProvider, api_key = Some ''sk-test'', azure_api = None, api_version = None,
      azure_endpoint = None, default_input_max_characters = Some 1024,
      default_generation_max_output_tokens = Some 200, default_generation_temperature = None,
      embedding_model_id = Some ''text-embedding-3-small''\<rparr>"

definition example_controller :: RAGController where
  "example_controller =
     \<lparr>em = True, app_settings = example_settings, text_embedding_client = example_provider,
      vectordb_client = Chroma, data_csv = ''assets/database/csv/dataset.csv''\<rparr>"

text \<open>An embedder that answers every text with the empty vector.\<close>

definition degenerate_env :: env where
  "degenerate_env = example_env\<lparr>embed_text := (\<lambda>_ _. Inr (Some []))\<rparr>"

text \<open>The configuration the Chroma variant gives a collection: the cosine space.\<close>

definition cosine_metadata :: coll_config where
  "cosine_metadata = ChromaMetadata [(''hnsw:space'', ''cosine'')]"

section \<open>Proofs\<close>

subsection \<open>Computations\<close>

lemmas prog_defs = ret_def raise_def lift_def bnd_def try_except_def logger_def

lemma bnd_assoc: "bnd (bnd m f) g = bnd m (\<lambda>x. bnd (f x) g)"
  by (rule ext) (simp add: bnd_def split: prod.splits sum.splits)

lemma bnd_ret: "bnd (ret x) f = f x"
  by (rule ext) (simp add: bnd_def ret_def)

lemma bnd_if: "bnd (if c then m else n) g = (if c then bnd m g else bnd n g)"
  by simp

lemma request_ok:
  "fault env (length (calls w)) c = None \<Longrightarrow>
   request env c w = (Inr (), w\<lparr>calls := calls w @ [c]\<rparr>)"
  by (simp add: request_def)

lemma request_fails:
  "fault env (length (calls w)) c = Some e \<Longrightarrow>
   request env c w = (Inl e, w\<lparr>calls := calls w @ [c]\<rparr>)"
  by (simp add: request_def)

subsection \<open>The store\<close>

lemma filter_absent:
  "\<forall>x\<in>set cs. n \<noteq> fst x \<Longrightarrow> filter (\<lambda>kc. fst kc \<noteq> n) cs = cs"
  by (induction cs) auto

subsection \<open>Collection lifecycle\<close>

text \<open>
  C1. When the database answers the lifecycle requests, \<open>create_collection\<close> with
  \<open>do_reset=True\<close> on either variant removes any collection of that name, then creates an
  empty one, and returns \<open>True\<close>: the requests sent are the existence check, the deletion
  if the collection existed, the existence check again and the creation. With
  \<open>do_reset=False\<close> it returns \<open>False\<close> and changes no collection when the name exists,
  and creates the collection and returns \<open>True\<close> otherwise; so it returns \<open>True\<close> exactly
  when it created a collection.
\<close>

theorem create_collection_reset_semantics:
  assumes "\<forall>i. fault env i (exists_call v n) = None"
    and "\<forall>i. fault env i (DeleteCollection n) = None"
    and "\<forall>i. fault env i (CreateCollection n (fresh_config v sz)) = None"
  shows "create_collection v env n (Passed sz) True w =
      (Inr True,
       w\<lparr>collections := filter (\<lambda>kc. fst kc \<noteq> n) (collections w)
                           @ [(n, \<lparr>cconfig = fresh_config v sz, points = []\<rparr>)],
         calls := calls w @ (if has_collection w n
                   then [exists_call v n, DeleteCollection n, exists_call v n,
                         CreateCollection n (fresh_config v sz)]
                   else [exists_call v n, exists_call v n,
                         CreateCollection n (fresh_config v sz)])\<rparr>)
     \<and> create_collection v env n (Passed sz) False w =
      (if has_collection w n then (Inr False, w\<lparr>calls := calls w @ [exists_call v n]\<rparr>)
       else (Inr True,
             w\<lparr>collections := collections w
                                 @ [(n, \<lparr>cconfig = fresh_config v sz, points = []\<rparr>)],
               calls := calls w @ [exists_call v n,
                                   CreateCollection n (fresh_config v sz)]\<rparr>))"
  using assms
  by (cases v)
    (auto simp: create_collection_def Chroma_create_collection_def
      Qdrant_create_collection_def Chroma_delete_collection_def Qdrant_delete_collection_def
      Chroma_is_collection_existed_def Qdrant_is_collection_existed_def
      client_list_collections_def client_collection_exists_def client_delete_collection_def
      client_create_collection_def prog_defs request_def has_collection_def exists_call_def
      fresh_config_def list_ex_iff filter_absent image_iff)

theorem create_collection_reset_semantics_witness:
  "(\<forall>i. fault example_env i (exists_call Qdrant ''cars'') = None)
   \<and> (\<forall>i. fault example_env i (DeleteCollection ''cars'') = None)
   \<and> (\<forall>i. fault example_env i (CreateCollection ''cars'' (fresh_config Qdrant 3)) = None)
   \<and> create_collection Qdrant example_env ''cars'' (Passed 3) True stocked_world =
       (Inr True,
        \<lparr>collections = [(''cars'', \<lparr>cconfig = QdrantVectorParams 3 ''Cosine'', points = []\<rparr>)],
         calls = [CollectionExists ''cars'', DeleteCollection ''cars'',
                  CollectionExists ''cars'',
                  CreateCollection ''cars'' (QdrantVectorParams 3 ''Cosine'')],
         logs = []\<rparr>)
   \<and> create_collection Qdrant example_env ''cars'' (Passed 3) False stocked_world =
       (Inr False, stocked_world\<lparr>calls := [CollectionExists ''cars'']\<rparr>)"
  using create_collection_reset_semantics [of example_env Qdrant "''cars''" 3 stocked_world]
  by (simp add: example_env_def stocked_world_def has_collection_def exists_call_def
      fresh_config_def)

subsection \<open>Search\<close>

lemma Chroma_search_never_raises:
  "\<exists>r w'. Chroma_search_by_vector env name vec limit w = (Inr r, w')"
  unfolding Chroma_search_by_vector_def try_except_def
  by (auto simp: bnd_def logger_def ret_def split: prod.splits sum.splits)

text \<open>
  C2. The claim asks that \<open>search_by_vector\<close> of either variant catches an exception of the
  database. The Qdrant variant has no handler: with a database that refuses the search
  request, the exception reaches the caller, while the Chroma variant at the same input
  logs the error and returns \<open>None\<close>.
\<close>

theorem Qdrant_search_by_vector_raises:
  "search_by_vector Qdrant down_env ''cars'' (Some [1]) 3 stocked_world =
     (Inl StoreError, stocked_world\<lparr>calls := [QdrantSearch ''cars'' (Some [1]) 3]\<rparr>)
   \<and> search_by_vector Chroma down_env ''cars'' (Some [1]) 3 stocked_world =
     (Inr None, stocked_world\<lparr>calls := [GetCollection ''cars''],
        logs := [(ERROR, ''Error during search'', Some StoreError)]\<rparr>)"
  by (simp add: search_by_vector_def Qdrant_search_by_vector_def Chroma_search_by_vector_def
      client_search_def client_get_collection_def prog_defs request_def down_env_def
      example_env_def stocked_world_def)

subsection \<open>The embedding-provider factory\<close>

text \<open>
  C9. The claim asks that \<open>create\<close> checks the credentials of the chosen path and returns
  \<open>None\<close> with a log line when one is missing. On the Azure path (\<open>azure=True\<close>, the
  default) nothing is checked: whatever the configuration holds, also no key at all, the
  call logs nothing and does not return \<open>None\<close>; it returns the constructed provider or
  raises what the constructor raises.
\<close>

theorem LLMProviderFactory_create_azure_unchecked:
  "snd (LLMProviderFactory_create env config True (LLMEnums_OPENAI env) w) = w
   \<and> fst (LLMProviderFactory_create env config True (LLMEnums_OPENAI env) w) \<noteq> Inr None"
  by (simp add: LLMProviderFactory_create_def construct_def raise_def ret_def split: option.splits)

subsection \<open>Preparing the rows of a table\<close>

lemma foldl_append_text:
  "foldl (\<lambda>s c. s @ f c) acc cols = acc @ concat (map f cols)"
  by (induction cols arbitrary: acc) simp_all

lemma row_text_concat:
  "row_text cols row = concat (map (\<lambda>col. col @ '': '' @ row col @ [CHR '','', CHR 0x0A]) cols)"
  unfolding row_text_def using foldl_append_text[of "\<lambda>col. col @ '': '' @ row col @ [CHR '','', CHR 0x0A]" "[]" cols]
  by simp

lemma prepare_rows_result:
  assumes "\<forall>r\<in>set rs. \<exists>v. embed_text env client (row_text cols (snd r)) = Inr v"
  shows "prepare_rows env client cols fn rs (docs, metas, ids, embs) =
     Inr (docs @ map (\<lambda>r. row_text cols (snd r)) rs,
          metas @ map (\<lambda>r. Some [(''source'', fn)]) rs,
          ids @ map (\<lambda>r. StrId (''id'' @ str_int (fst r))) rs,
          embs @ map (\<lambda>r. projr (embed_text env client (row_text cols (snd r)))) rs)"
  using assms
proof (induction rs arbitrary: docs metas ids embs)
  case Nil
  show ?case by simp
next
  case (Cons r rs)
  obtain index row where r: "r = (index, row)" by (cases r)
  obtain v where v: "embed_text env client (row_text cols row) = Inr v"
    using Cons.prems r by auto
  show ?case
    using Cons.IH Cons.prems by (simp add: r v)
qed

lemma str_int_nat: "str_int (int i) = str_nat i"
  by (simp add: str_int_def)

text \<open>
  C5. When the embedding call succeeds on the text of every row,
  \<open>prepare_data_for_injection\<close> returns four lists, each as long as the table has rows, and
  for the row at position \<open>i\<close>: the document is the concatenation, in column order, of
  \<open>"col: value,"\<close> and a newline for every column; the identifier is \<open>"id"\<close> followed by the row's index
  label, which is \<open>i\<close> itself for the default index \<open>0, 1, 2, \<dots>\<close> that a table read from a
  CSV file carries; the metadata is \<open>{"source": file_name}\<close>; and the embedding is what the
  embedding call returns for the document.
\<close>

theorem prepare_data_for_injection_rows:
  assumes "\<forall>r\<in>set (rows df). \<exists>v. embed_text env client (row_text (columns df) (snd r)) = Inr v"
  shows "\<exists>docs metas ids embs.
      prepare_data_for_injection env client df file_name = Inr (docs, metas, ids, embs)
    \<and> length docs = length (rows df) \<and> length metas = length (rows df)
    \<and> length ids = length (rows df) \<and> length embs = length (rows df)
    \<and> (\<forall>i<length (rows df).
          docs ! i = concat (map (\<lambda>col. col @ '': '' @ snd (rows df ! i) col @ [CHR '','', CHR 0x0A])
                       (columns df))
        \<and> ids ! i = StrId (''id'' @ str_int (fst (rows df ! i)))
        \<and> metas ! i = Some [(''source'', file_name)]
        \<and> embed_text env client (docs ! i) = Inr (embs ! i))
    \<and> (map fst (rows df) = map int [0..<length (rows df)] \<longrightarrow>
         (\<forall>i<length (rows df). ids ! i = StrId (''id'' @ str_nat i)))"
proof -
  let ?docs = "map (\<lambda>r. row_text (columns df) (snd r)) (rows df)"
  let ?metas = "map (\<lambda>r. Some [(''source'', file_name)]) (rows df)"
  let ?ids = "map (\<lambda>r. StrId (''id'' @ str_int (fst r))) (rows df)"
  let ?embs = "map (\<lambda>r. projr (embed_text env client (row_text (columns df) (snd r)))) (rows df)"
  have res: "prepare_data_for_injection env client df file_name = Inr (?docs, ?metas, ?ids, ?embs)"
    unfolding prepare_data_for_injection_def using prepare_rows_result[OF assms, of file_name "[]" "[]" "[]" "[]"]
    by simp
  have emb: "\<forall>i<length (rows df). embed_text env client (?docs ! i) = Inr (?embs ! i)"
  proof (intro allI impI)
    fix i assume i: "i < length (rows df)"
    then have "rows df ! i \<in> set (rows df)" by simp
    then obtain v where "embed_text env client (row_text (columns df) (snd (rows df ! i))) = Inr v"
      using assms by blast
    then show "embed_text env client (?docs ! i) = Inr (?embs ! i)"
      using i by simp
  qed
  have idx: "map fst (rows df) = map int [0..<length (rows df)] \<longrightarrow>
         (\<forall>i<length (rows df). ?ids ! i = StrId (''id'' @ str_nat i))"
  proof (intro allI impI)
    fix i assume m: "map fst (rows df) = map int [0..<length (rows df)]" and i: "i < length (rows df)"
    have "fst (rows df ! i) = map fst (rows df) ! i" using i by simp
    also have "\<dots> = int i" using i by (simp add: m)
    finally show "?ids ! i = StrId (''id'' @ str_nat i)" using i by (simp add: str_int_nat)
  qed
  show ?thesis
    using res emb idx by (simp add: row_text_concat)
qed

theorem prepare_data_for_injection_rows_witness:
  "prepare_data_for_injection example_env example_provider example_table ''dataset'' =
     Inr ([''make: Toyota,'' @ [CHR 0x0A] @ ''year: 2020,'' @ [CHR 0x0A],
           ''make: Honda,'' @ [CHR 0x0A] @ ''year: 2019,'' @ [CHR 0x0A],
           ''make: Ford,'' @ [CHR 0x0A] @ ''year: 2021,'' @ [CHR 0x0A]],
          [Some [(''source'', ''dataset'')], Some [(''source'', ''dataset'')],
           Some [(''source'', ''dataset'')]],
          [StrId ''id0'', StrId ''id1'', StrId ''id2''],
          [Some [26], Some [25], Some [24]])"
proof -
  have h: "\<forall>r\<in>set (rows example_table).
      \<exists>v. embed_text example_env example_provider (row_text (columns example_table) (snd r)) = Inr v"
    by (simp add: example_env_def)
  have n: "length (rows example_table) = 3"
    by (simp add: example_table_def)
  obtain docs metas ids embs where
    r: "prepare_data_for_injection example_env example_provider example_table ''dataset''
        = Inr (docs, metas, ids, embs)"
    and len: "length docs = length (rows example_table)" "length metas = length (rows example_table)"
      "length ids = length (rows example_table)" "length embs = length (rows example_table)"
    and rws: "\<forall>i<length (rows example_table).
          docs ! i = concat (map (\<lambda>col. col @ '': '' @ snd (rows example_table ! i) col @ [CHR '','', CHR 0x0A])
                       (columns example_table))
        \<and> ids ! i = StrId (''id'' @ str_int (fst (rows example_table ! i)))
        \<and> metas ! i = Some [(''source'', ''dataset'')]
        \<and> embed_text example_env example_provider (docs ! i) = Inr (embs ! i)"
    using prepare_data_for_injection_rows [OF h, of "''dataset''"] by blast
  have l3: "\<And>xs :: 'a list. length xs = 3 \<Longrightarrow> xs = [xs ! 0, xs ! 1, xs ! 2]"
    by (auto simp: numeral_3_eq_3 length_Suc_conv)
  have d: "docs = [docs ! 0, docs ! 1, docs ! 2]" and m: "metas = [metas ! 0, metas ! 1, metas ! 2]"
    and i: "ids = [ids ! 0, ids ! 1, ids ! 2]" and e: "embs = [embs ! 0, embs ! 1, embs ! 2]"
    using len l3 unfolding n by blast+
  have r0: "0 < length (rows example_table)" and r1: "1 < length (rows example_table)"
    and r2: "2 < length (rows example_table)" unfolding n by simp_all
  have f0: "docs ! 0 = ''make: Toyota,'' @ [CHR 0x0A] @ ''year: 2020,'' @ [CHR 0x0A]"
      "ids ! 0 = StrId ''id0''" "metas ! 0 = Some [(''source'', ''dataset'')]"
    using rws[rule_format, OF r0] by (simp_all add: example_table_def str_int_def digit_char_def)
  have f1: "docs ! 1 = ''make: Honda,'' @ [CHR 0x0A] @ ''year: 2019,'' @ [CHR 0x0A]"
      "ids ! 1 = StrId ''id1''" "metas ! 1 = Some [(''source'', ''dataset'')]"
    using rws[rule_format, OF r1] by (simp_all add: example_table_def str_int_def digit_char_def)
  have f2: "docs ! 2 = ''make: Ford,'' @ [CHR 0x0A] @ ''year: 2021,'' @ [CHR 0x0A]"
      "ids ! 2 = StrId ''id2''" "metas ! 2 = Some [(''source'', ''dataset'')]"
    using rws[rule_format, OF r2] by (simp_all add: example_table_def str_int_def digit_char_def)
  have e0: "embs ! 0 = Some [26]"
    using rws[rule_format, OF r0] unfolding f0 by (simp add: example_env_def)
  have e1: "embs ! 1 = Some [25]"
    using rws[rule_format, OF r1] unfolding f1 by (simp add: example_env_def)
  have e2: "embs ! 2 = Some [24]"
    using rws[rule_format, OF r2] unfolding f2 by (simp add: example_env_def)
  have "(docs, metas, ids, embs) =
      ([docs ! 0, docs ! 1, docs ! 2], [metas ! 0, metas ! 1, metas ! 2],
       [ids ! 0, ids ! 1, ids ! 2], [embs ! 0, embs ! 1, embs ! 2])"
    using d m i e by simp
  then show ?thesis
    unfolding r f0 f1 f2 e0 e1 e2 by simp
qed

subsection \<open>Retrieval\<close>

text \<open>
  C6. \<open>search_vector_db_collection\<close> never raises, for every query text and limit, whichever
  variant the store is. If embedding the query raises, the error is logged and the result
  is empty. If the embedding is \<open>None\<close> or empty, a warning is logged and the result is empty;
  no request is sent to the store. Otherwise the store is searched: an exception of the
  search is logged and gives the empty list, the absent result \<open>None\<close> gives the empty list,
  and a list of documents is returned as it is.
\<close>

theorem search_vector_db_collection_never_raises:
  "(\<exists>r w'. search_vector_db_collection env self txt limit w = (Inr r, w'))
   \<and> (\<forall>e. embed_text env (text_embedding_client self) txt = Inl e \<longrightarrow>
        search_vector_db_collection env self txt limit w =
          (Inr [], w\<lparr>logs := logs w @ [(ERROR, ''Error during vector DB search'', Some e)]\<rparr>))
   \<and> (\<forall>vec. embed_text env (text_embedding_client self) txt = Inr vec \<and> py_not vec \<longrightarrow>
        search_vector_db_collection env self txt limit w =
          (Inr [], w\<lparr>logs := logs w @ [(WARNING,
              ''Embedding returned an empty vector; returning empty result set.'', None)]\<rparr>))
   \<and> (\<forall>vec. embed_text env (text_embedding_client self) txt = Inr vec \<and> \<not> py_not vec \<longrightarrow>
        search_vector_db_collection env self txt limit w =
          (case search_by_vector (vectordb_client self) env (COLLECTION_NAME (app_settings self))
                  vec limit w of
             (Inl e, w') \<Rightarrow>
               (Inr [], w'\<lparr>logs := logs w' @ [(ERROR, ''Error during vector DB search'', Some e)]\<rparr>)
           | (Inr None, w') \<Rightarrow> (Inr [], w')
           | (Inr (Some rs), w') \<Rightarrow> (Inr rs, w')))"
  unfolding search_vector_db_collection_def try_except_def
  by (auto simp: bnd_def lift_def logger_def ret_def py_not_def
      split: prod.splits sum.splits option.splits)

theorem search_vector_db_collection_never_raises_witness:
  "embed_text degenerate_env (text_embedding_client example_controller) '''' = Inr (Some [])
   \<and> py_not (Some ([] :: real list))
   \<and> search_vector_db_collection degenerate_env example_controller '''' 3 stocked_world =
       (Inr [], stocked_world\<lparr>logs := [(WARNING,
          ''Embedding returned an empty vector; returning empty result set.'', None)]\<rparr>)"
proof -
  have h: "embed_text degenerate_env (text_embedding_client example_controller) '''' = Inr (Some [])
      \<and> py_not (Some ([] :: real list))"
    by (simp add: degenerate_env_def py_not_def)
  note t = search_vector_db_collection_never_raises [of degenerate_env example_controller "''''" 3
      stocked_world, THEN conjunct2, THEN conjunct2, THEN conjunct1, rule_format, OF h]
  show ?thesis
    using h t by (simp add: stocked_world_def)
qed

subsection \<open>Loading the dataset\<close>

lemma splitext_joins: "fst (splitext p) @ snd (splitext p) = p"
  by (simp add: splitext_def Let_def)

lemma rfind_absent: "c \<notin> set p \<Longrightarrow> rfind p c = - 1"
  by (simp add: rfind_def)

lemma rfind_last: "c \<notin> set ys \<Longrightarrow> rfind (xs @ c # ys) c = int (length xs)"
proof -
  assume a: "c \<notin> set ys"
  have "takeWhile (\<lambda>x. x \<noteq> c) (rev ys @ c # rev xs) = rev ys"
    using a by (auto simp: takeWhile_tail)
  then show ?thesis by (simp add: rfind_def)
qed

lemma basename_after_slash:
  "CHR ''/'' \<notin> set name \<Longrightarrow> basename (dir @ CHR ''/'' # name) = name"
proof -
  assume a: "CHR ''/'' \<notin> set name"
  have "nat (int (length dir) + 1) = Suc (length dir)" by simp
  then show ?thesis using a by (simp add: basename_def rfind_last)
qed

lemma basename_plain: "CHR ''/'' \<notin> set name \<Longrightarrow> basename name = name"
  by (simp add: basename_def rfind_absent)

lemma splitext_csv:
  assumes "CHR ''/'' \<notin> set stem" "list_ex (\<lambda>x. x \<noteq> CHR ''.'') stem"
  shows "splitext (stem @ ''.csv'') = (stem, ''.csv'')"
proof -
  have s: "rfind (stem @ ''.csv'') (CHR ''/'') = - 1"
    using assms(1) by (simp add: rfind_absent)
  have d: "rfind (stem @ ''.csv'') (CHR ''.'') = int (length stem)"
    using rfind_last[of "CHR ''.''" "''csv''" stem] by simp
  show ?thesis
    using assms(2) by (simp add: splitext_def s d py_slice_def)
qed

text \<open>
  C8. For a path whose extension (what \<open>os.path.splitext\<close> splits off the base name) is not
  \<open>.csv\<close>, \<open>get_file_loader\<close> logs an error and returns \<open>None\<close> without raising. For a path
  with the extension \<open>.csv\<close> it returns the table that \<open>read_csv\<close> parsed, together with
  the base name without that extension; in particular, for a path \<open>dir/stem.csv\<close> it
  returns the table and \<open>stem\<close>.
\<close>

theorem get_file_loader_by_extension:
  "(snd (splitext (basename dataset)) \<noteq> ''.csv'' \<longrightarrow>
      get_file_loader env dataset w =
        (Inr None, w\<lparr>logs := logs w @
           [(ERROR, ''The selected file type is not supported'', None)]\<rparr>))
   \<and> (snd (splitext (basename dataset)) = ''.csv'' \<longrightarrow>
        fst (splitext (basename dataset)) @ ''.csv'' = basename dataset
      \<and> (\<forall>df. read_csv env dataset = Inr df \<longrightarrow>
            get_file_loader env dataset w =
              (Inr (Some (df, fst (splitext (basename dataset)))), w)))
   \<and> (\<forall>dir stem df. CHR ''/'' \<notin> set stem \<and> list_ex (\<lambda>x. x \<noteq> CHR ''.'') stem
         \<and> read_csv env (dir @ CHR ''/'' # stem @ ''.csv'') = Inr df \<longrightarrow>
        get_file_loader env (dir @ CHR ''/'' # stem @ ''.csv'') w = (Inr (Some (df, stem)), w))"
proof -
  have a: "snd (splitext (basename dataset)) \<noteq> ''.csv'' \<longrightarrow>
      get_file_loader env dataset w =
        (Inr None, w\<lparr>logs := logs w @
           [(ERROR, ''The selected file type is not supported'', None)]\<rparr>)"
    by (simp add: get_file_loader_def Let_def bnd_def logger_def ret_def split: prod.splits)
  have b: "snd (splitext (basename dataset)) = ''.csv'' \<longrightarrow>
        fst (splitext (basename dataset)) @ ''.csv'' = basename dataset
      \<and> (\<forall>df. read_csv env dataset = Inr df \<longrightarrow>
            get_file_loader env dataset w =
              (Inr (Some (df, fst (splitext (basename dataset)))), w))"
    using splitext_joins[of "basename dataset"]
    by (auto simp: get_file_loader_def Let_def bnd_def lift_def ret_def split: prod.splits)
  have c: "\<forall>dir stem df. CHR ''/'' \<notin> set stem \<and> list_ex (\<lambda>x. x \<noteq> CHR ''.'') stem
         \<and> read_csv env (dir @ CHR ''/'' # stem @ ''.csv'') = Inr df \<longrightarrow>
        get_file_loader env (dir @ CHR ''/'' # stem @ ''.csv'') w = (Inr (Some (df, stem)), w)"
  proof (intro allI impI)
    fix dir stem df
    assume h: "CHR ''/'' \<notin> set stem \<and> list_ex (\<lambda>x. x \<noteq> CHR ''.'') stem
         \<and> read_csv env (dir @ CHR ''/'' # stem @ ''.csv'') = Inr df"
    then have "CHR ''/'' \<notin> set (stem @ ''.csv'')" by simp
    then have bn: "basename (dir @ CHR ''/'' # stem @ ''.csv'') = stem @ ''.csv''"
      by (rule basename_after_slash)
    show "get_file_loader env (dir @ CHR ''/'' # stem @ ''.csv'') w = (Inr (Some (df, stem)), w)"
      using h by (simp add: get_file_loader_def bn splitext_csv bnd_def lift_def ret_def)
  qed
  show ?thesis using a b c by blast
qed

theorem get_file_loader_by_extension_witness:
  "snd (splitext (basename ''data.txt'')) \<noteq> ''.csv''
   \<and> get_file_loader example_env ''data.txt'' empty_world =
       (Inr None, empty_world\<lparr>logs := [(ERROR, ''The selected file type is not supported'', None)]\<rparr>)
   \<and> get_file_loader example_env ''assets/database/csv/dataset.csv'' empty_world =
       (Inr (Some (example_table, ''dataset'')), empty_world)"
proof -
  have h: "snd (splitext (basename ''data.txt'')) \<noteq> ''.csv''"
    by (simp add: basename_def splitext_def rfind_def py_slice_def)
  have p: "''assets/database/csv/dataset.csv'' = ''assets/database/csv'' @ CHR ''/'' # ''dataset'' @ ''.csv''"
    by simp
  have g: "CHR ''/'' \<notin> set ''dataset'' \<and> list_ex (\<lambda>x. x \<noteq> CHR ''.'') ''dataset''
         \<and> read_csv example_env (''assets/database/csv'' @ CHR ''/'' # ''dataset'' @ ''.csv'') = Inr example_table"
    by (simp add: example_env_def)
  note t = get_file_loader_by_extension [of "''data.txt''" example_env empty_world]
  note t1 = t [THEN conjunct1, rule_format, OF h]
  note t2 = get_file_loader_by_extension [of _ example_env empty_world, THEN conjunct2, THEN conjunct2, rule_format, OF g]
  show ?thesis
    using h t1 t2 unfolding p by (simp add: empty_world_def)
qed

subsection \<open>Indexing with the Qdrant variant\<close>

lemma LLMProviderFactory_create_frame:
  "LLMProviderFactory_create env config azure provider w = (r, w') \<Longrightarrow>
   collections w' = collections w \<and> calls w' = calls w"
  by (auto simp: LLMProviderFactory_create_def construct_def prog_defs
      split: if_splits option.splits)

lemma DataProcessController_init_frame:
  "DataProcessController_init env s w = (r, w') \<Longrightarrow>
   collections w' = collections w \<and> calls w' = calls w"
  unfolding DataProcessController_init_def bnd_def
  by (auto simp: raise_def ret_def split: prod.splits sum.splits option.splits
      dest: LLMProviderFactory_create_frame)

lemma get_file_loader_frame:
  "get_file_loader env dataset w = (r, w') \<Longrightarrow>
   collections w' = collections w \<and> calls w' = calls w"
  by (auto simp: get_file_loader_def Let_def prog_defs split: prod.splits sum.splits if_splits)

text \<open>
  C10. With the Qdrant variant as the store, \<open>index_into_vector_db\<close> in re-embed mode
  always returns \<open>None\<close>, sends no request to the store and leaves its collections as they
  were, so it never creates the target collection. When constructing the process
  controller, loading the file and preparing the rows succeed, the exception the handler
  logs is the \<open>TypeError\<close> of calling \<open>create_collection\<close> without \<open>embedding_size\<close>.
\<close>

theorem index_into_vector_db_Qdrant_returns_None:
  "fst (index_into_vector_db env (self\<lparr>em := True, vectordb_client := Qdrant\<rparr>) w) = Inr None
   \<and> collections (snd (index_into_vector_db env (self\<lparr>em := True, vectordb_client := Qdrant\<rparr>) w))
       = collections w
   \<and> calls (snd (index_into_vector_db env (self\<lparr>em := True, vectordb_client := Qdrant\<rparr>) w))
       = calls w
   \<and> (\<forall>pc w1 df fn w2 r.
         DataProcessController_init env (app_settings self) w = (Inr pc, w1)
       \<and> get_file_loader env (data_csv self) w1 = (Inr (Some (df, fn)), w2)
       \<and> prepare_data_for_injection env pc df fn = Inr r \<longrightarrow>
       index_into_vector_db env (self\<lparr>em := True, vectordb_client := Qdrant\<rparr>) w =
         (Inr None, w2\<lparr>logs := logs w2 @
            [(ERROR, ''Error during vector DB indexing'', Some TypeError)]\<rparr>))"
proof -
  obtain r1 w1 where i: "DataProcessController_init env (app_settings self) w = (r1, w1)"
    by (cases "DataProcessController_init env (app_settings self) w")
  obtain r2 w2 where g: "get_file_loader env (data_csv self) w1 = (r2, w2)"
    by (cases "get_file_loader env (data_csv self) w1")
  have f1: "collections w1 = collections w \<and> calls w1 = calls w"
    using DataProcessController_init_frame[OF i] .
  have f2: "collections w2 = collections w1 \<and> calls w2 = calls w1"
    using get_file_loader_frame[OF g] .
  show ?thesis
    using f1 f2
    by (auto simp: index_into_vector_db_def try_except_def bnd_def i g create_collection_def
        Qdrant_create_collection_def raise_def lift_def logger_def ret_def
        split: prod.splits sum.splits option.splits)
qed

theorem index_into_vector_db_Qdrant_returns_None_witness:
  "index_into_vector_db example_env (example_controller\<lparr>em := True, vectordb_client := Qdrant\<rparr>)
     empty_world =
     (Inr None, empty_world\<lparr>logs :=
        [(ERROR, ''Error during vector DB indexing'', Some TypeError)]\<rparr>)"
proof -
  have a: "DataProcessController_init example_env (app_settings example_controller) empty_world
      = (Inr example_provider, empty_world)"
    by (simp add: DataProcessController_init_def LLMProviderFactory_create_def construct_def
        prog_defs example_env_def example_controller_def example_settings_def
        example_provider_def py_not_def)
  have b: "get_file_loader example_env (data_csv example_controller) empty_world
      = (Inr (Some (example_table, ''dataset'')), empty_world)"
    by (simp add: get_file_loader_def basename_def splitext_def rfind_def py_slice_def
        prog_defs example_env_def example_controller_def)
  have "\<exists>r. prepare_data_for_injection example_env example_provider example_table ''dataset''
      = Inr r"
    unfolding prepare_data_for_injection_def
    by (subst prepare_rows_result) (simp_all add: example_env_def)
  then obtain r where c: "prepare_data_for_injection example_env example_provider example_table
      ''dataset'' = Inr r" ..
  note t = index_into_vector_db_Qdrant_returns_None [of example_env example_controller empty_world,
      THEN conjunct2, THEN conjunct2, THEN conjunct2, rule_format, of example_provider empty_world
      example_table "''dataset''" empty_world r]
  show ?thesis
    using t a b c by (simp add: empty_world_def)
qed

end
